theory Spec2Isabelle
  imports Complex_Main "HOL-Library.Word" "HOL-Library.Signed_Division"
begin

section \<open>Theta entrainment firmware: arithmetic conventions\<close>

text \<open>
  The embedding follows \<^verbatim>\<open>src/main.cpp\<close>. The C type \<^verbatim>\<open>float\<close> is read as
  \<^typ>\<open>real\<close>: every operation is the one the source writes, computed exactly, and
  rounding to 24 bits is not part of the model, except in \<open>rampMul_binary32\<close> below,
  where the growth of the ramp depends on it. The integer types are exact:
  \<^verbatim>\<open>uint8_t\<close> is \<^typ>\<open>8 word\<close>, \<^verbatim>\<open>unsigned long\<close> (32 bits on the ESP32) is
  \<^typ>\<open>32 word\<close>, \<^verbatim>\<open>uint64_t\<close> is \<^typ>\<open>64 word\<close>, and \<^verbatim>\<open>int\<close> is \<^typ>\<open>int\<close>
  (no value of the program leaves the 32-bit range).
\<close>

text \<open>Conversion of a floating value to an integer type truncates toward zero.\<close>

definition float_to_int :: "real \<Rightarrow> int" where
  "float_to_int x = (if 0 \<le> x then \<lfloor>x\<rfloor> else \<lceil>x\<rceil>)"

text \<open>\<^verbatim>\<open>(uint8_t)x\<close> for a floating \<^verbatim>\<open>x\<close>: truncation, then the low eight bits.\<close>

definition float_to_uint8 :: "real \<Rightarrow> 8 word" where
  "float_to_uint8 x = word_of_int (float_to_int x)"

text \<open>\<^verbatim>\<open>fmodf\<close> of the C library: the remainder has the sign of the dividend.\<close>

definition fmodf :: "real \<Rightarrow> real \<Rightarrow> real" where
  "fmodf x y = x - real_of_int (float_to_int (x / y)) * y"

text \<open>Modelled from the spec: \<^verbatim>\<open>TWO_PI\<close> is a macro of \<^verbatim>\<open>Arduino.h\<close>, not in the
  repository (6.2831853...); the spec writes it \<open>2\<pi>\<close>.\<close>

definition TWO_PI :: real where
  "TWO_PI = 2 * pi"

subsection \<open>Parameters (lines 32--84)\<close>

definition NUM_LEDS :: nat where "NUM_LEDS = 20"
definition LEFT_FREQ_HZ :: real where "LEFT_FREQ_HZ = 5.8"
definition RIGHT_FREQ_HZ :: real where "RIGHT_FREQ_HZ = 6.2"
definition MICRO_ENABLED :: bool where "MICRO_ENABLED = False"
definition MICRO_FREQ_HZ :: real where "MICRO_FREQ_HZ = 45"
definition BREATH_FREQ_HZ :: real where "BREATH_FREQ_HZ = 0.12"
definition GLOBAL_BRIGHTNESS :: "8 word" where "GLOBAL_BRIGHTNESS = 70"
definition FRAME_MS :: "32 word" where "FRAME_MS = 10"
definition RAMP_IN_SECONDS :: real where "RAMP_IN_SECONDS = 180"
definition MAX_SESSION_SECONDS :: real where "MAX_SESSION_SECONDS = 1800"
definition MODE_DURATION :: real where "MODE_DURATION = 30"
definition REFLECTION_OFFSET :: nat where "REFLECTION_OFFSET = 2"
definition REFLECTION_DECAY :: real where "REFLECTION_DECAY = 0.35"
definition PULSE_SHARPNESS :: real where "PULSE_SHARPNESS = 2.5"
definition USE_SINUSOIDAL_MODULATION :: bool where "USE_SINUSOIDAL_MODULATION = True"
definition USE_PHASE_ENHANCEMENT :: bool where "USE_PHASE_ENHANCEMENT = True"
definition PHASE_SYNC_STRENGTH :: real where "PHASE_SYNC_STRENGTH = 0.15"

subsection \<open>Safety utilities and the clock (lines 110--135)\<close>

definition safeClampInt :: "int \<Rightarrow> 8 word" where
  "safeClampInt v = (if v < 0 then 0 else if v > 255 then 255 else word_of_int v)"

definition clamp01 :: "real \<Rightarrow> real" where
  "clamp01 v = (if v < 0 then 0 else (if v > 1 then 1 else v))"

definition getTimeSeconds :: "64 word \<Rightarrow> real" where
  "getTimeSeconds micros = real (unat micros) * 0.000001"

subsection \<open>Modulation engine (lines 137--178)\<close>

definition phaseOf :: "real \<Rightarrow> real \<Rightarrow> real" where
  "phaseOf t f = fmodf (t * f) 1"

definition getEnhancedPhase :: "real \<Rightarrow> real \<Rightarrow> real \<Rightarrow> real" where
  "getEnhancedPhase t freq syncStrength =
     (let basePhase = phaseOf t freq in
      if USE_PHASE_ENHANCEMENT \<and> syncStrength > 0 then
        (let correction = sin (TWO_PI * basePhase) * syncStrength in
         fmodf (basePhase + correction) 1)
      else basePhase)"

definition expPulse :: "real \<Rightarrow> real \<Rightarrow> real" where
  "expPulse phase sharpness = exp (- phase * sharpness)"

definition sinModSmooth :: "real \<Rightarrow> real \<Rightarrow> real" where
  "sinModSmooth t freq =
     (let phase = t * freq; raw = sin (TWO_PI * phase) in 0.5 * (1 + raw))"

subsection \<open>Geometry masks (lines 182--206)\<close>

definition spiralMask :: "int \<Rightarrow> real \<Rightarrow> real \<Rightarrow> real" where
  "spiralMask i t speed =
     (let pos = real_of_int i / real NUM_LEDS;
          shift = fmodf (t * speed) 1;
          d = \<bar>pos - shift\<bar>;
          d = (if d > 0.5 then 1 - d else d);
          m = 1 - d * 2
      in clamp01 (m + 0.2))"

definition radialMask :: "int \<Rightarrow> real \<Rightarrow> real \<Rightarrow> int \<Rightarrow> real" where
  "radialMask i t freq petals =
     (let pos = real_of_int i / real NUM_LEDS;
          angle = pos * real_of_int petals;
          carrier = 0.5 * (sin (TWO_PI * (t * freq + angle)) + 1)
      in clamp01 carrier)"

definition interferenceMask :: "int \<Rightarrow> real \<Rightarrow> real \<Rightarrow> real \<Rightarrow> real" where
  "interferenceMask i t fL fR =
     (let pos = real_of_int i / real NUM_LEDS;
          A = sin (TWO_PI * (t * fL + pos));
          B = sin (TWO_PI * (t * fR - pos));
          mix = (A + B) * 0.25 + 0.5
      in clamp01 mix)"

subsection \<open>Colours (lines 210--216, 367--369)\<close>

text \<open>Modelled from the spec: \<^verbatim>\<open>CRGB\<close> is the pixel type of FastLED, not in the
  repository: an RGB triple of 8 bits per channel, with the fields \<^verbatim>\<open>r\<close>, \<^verbatim>\<open>g\<close>, \<^verbatim>\<open>b\<close>
  (also named \<^verbatim>\<open>red\<close>, \<^verbatim>\<open>green\<close>, \<^verbatim>\<open>blue\<close> there); \<^verbatim>\<open>CRGB::Black\<close> is (0,0,0).\<close>

datatype CRGB = CRGB (red: "8 word") (green: "8 word") (blue: "8 word")

definition Black :: CRGB where "Black = CRGB 0 0 0"

text \<open>A byte channel promoted to \<^verbatim>\<open>float\<close>.\<close>

definition chan :: "8 word \<Rightarrow> real" where
  "chan c = real (unat c)"

definition mixColor :: "CRGB \<Rightarrow> CRGB \<Rightarrow> real \<Rightarrow> CRGB" where
  "mixColor a b w = CRGB
     (safeClampInt (float_to_int (chan (red a) * (1 - w) + chan (red b) * w)))
     (safeClampInt (float_to_int (chan (green a) * (1 - w) + chan (green b) * w)))
     (safeClampInt (float_to_int (chan (blue a) * (1 - w) + chan (blue b) * w)))"

definition leftColor :: CRGB where "leftColor = CRGB 255 120 40"
definition rightColor :: CRGB where "rightColor = CRGB 40 130 255"
definition centerColor :: CRGB where "centerColor = CRGB 255 200 90"

text \<open>The expression \<^verbatim>\<open>CRGB(safeClampInt(c.r * amp), safeClampInt(c.g * amp),
  safeClampInt(c.b * amp))\<close>, written out three times in \<^verbatim>\<open>loop\<close> (lines 380, 393, 405).\<close>

definition scaled :: "CRGB \<Rightarrow> real \<Rightarrow> CRGB" where
  "scaled c amp = CRGB
     (safeClampInt (float_to_int (chan (red c) * amp)))
     (safeClampInt (float_to_int (chan (green c) * amp)))
     (safeClampInt (float_to_int (chan (blue c) * amp)))"

definition spiralOrder :: "nat list" where
  "spiralOrder = [9,10,8,11,7,12,6,13,5,14,4,15,3,16,2,17,1,18,0,19]"

section \<open>The device: state, inputs and observable effects\<close>

text \<open>
  The globals of the program that change: the pixel buffer \<^verbatim>\<open>leds\<close>, FastLED's
  global brightness, \<^verbatim>\<open>lastFrameMs\<close>, \<^verbatim>\<open>tStart\<close> and the handle \<^verbatim>\<open>timer\<close>
  (\<open>None\<close> is \<^verbatim>\<open>NULL\<close>). The field \<open>control\<close> records where the program is:
  \<open>Looping\<close> while the runtime keeps calling \<^verbatim>\<open>loop()\<close>, \<open>PanicHalted\<close> inside the
  \<^verbatim>\<open>while (true)\<close> of lines 300--306, \<open>Halted\<close> inside the one of line 329.
\<close>

datatype control = Looping | PanicHalted | Halted

record machine =
  leds :: "CRGB list"
  brightness :: "8 word"
  lastFrameMs :: "32 word"
  tStart :: real
  timer :: "nat option"
  control :: control

text \<open>What the environment supplies to one pass: the level read from \<^verbatim>\<open>PANIC_PIN\<close>,
  the value of \<^verbatim>\<open>millis()\<close> and the tick counter \<^verbatim>\<open>timerMicros\<close>.\<close>

datatype pin_level = LOW | HIGH

record inputs =
  panicPin :: pin_level
  millis :: "32 word"
  timerMicros :: "64 word"

text \<open>What the program sends out: lines on the serial port (\<open>Println\<close> for
  \<^verbatim>\<open>Serial.println\<close>, \<open>Printf\<close> for \<^verbatim>\<open>Serial.printf\<close> with the text as formatted, less its
  final newline) and frames handed to \<^verbatim>\<open>FastLED.show()\<close> (the buffer with the brightness
  in force).\<close>

datatype event = Println string | Printf string | Show "CRGB list" "8 word"

text \<open>Modelled from the spec: \<^verbatim>\<open>fill_solid\<close> is FastLED's and not in the repository;
  it stores the colour in the first \<open>n\<close> pixels ("force black output").\<close>

definition fill_solid :: "CRGB list \<Rightarrow> nat \<Rightarrow> CRGB \<Rightarrow> CRGB list" where
  "fill_solid l n c = foldl (\<lambda>l i. l[i := c]) l [0..<n]"

text \<open>Modelled from the spec: \<^verbatim>\<open>qadd8\<close> is FastLED's and not in the repository;
  it is the "saturating addition" of two bytes, which stops at 255.\<close>

definition qadd8 :: "8 word \<Rightarrow> 8 word \<Rightarrow> 8 word" where
  "qadd8 i j = (let t = unat i + unat j in if t > 255 then 255 else of_nat t)"

section \<open>The safety envelope (lines 315--334)\<close>

text \<open>Lines 318--320.\<close>

definition rampMul :: "real \<Rightarrow> real" where
  "rampMul t = (let rampMul = clamp01 (t / RAMP_IN_SECONDS)
                in rampMul * rampMul * (3 - 2 * rampMul))"

text \<open>The variable \<^verbatim>\<open>fade\<close> as line 324 computes it.\<close>

definition fadeFrac :: "real \<Rightarrow> real" where
  "fadeFrac t = clamp01 (1 - (t - MAX_SESSION_SECONDS) / 15)"

text \<open>The condition under which lines 323--330 end the session.\<close>

definition sessionOver :: "real \<Rightarrow> bool" where
  "sessionOver t = (t > MAX_SESSION_SECONDS \<and> fadeFrac t \<le> 0.01)"

section \<open>Rendering one frame (lines 336--442)\<close>

text \<open>Line 337.\<close>

definition mandalaMode :: "real \<Rightarrow> int" where
  "mandalaMode t = float_to_int (t / MODE_DURATION) smod 3"

text \<open>Lines 356--360: the two auxiliary envelopes.\<close>

definition breathe :: "real \<Rightarrow> real" where
  "breathe t = 0.85 + 0.15 * sin (TWO_PI * BREATH_FREQ_HZ * t)"

definition micro :: "real \<Rightarrow> real" where
  "micro t = (if MICRO_ENABLED then 0.5 * (sin (TWO_PI * MICRO_FREQ_HZ * t) + 1) else 1)"

text \<open>Lines 340--353 for one channel: the enhanced phase is computed in any case and
  used by the pulse waveform only.\<close>

definition ampOf :: "real \<Rightarrow> real \<Rightarrow> real" where
  "ampOf t freq =
     (let ph = getEnhancedPhase t freq PHASE_SYNC_STRENGTH in
      if USE_SINUSOIDAL_MODULATION then sinModSmooth t freq
      else expPulse ph PULSE_SHARPNESS)"

text \<open>Lines 363--364.\<close>

definition finalL :: "real \<Rightarrow> real" where
  "finalL t = clamp01 (ampOf t LEFT_FREQ_HZ * micro t * rampMul t * breathe t)"

definition finalR :: "real \<Rightarrow> real" where
  "finalR t = clamp01 (ampOf t RIGHT_FREQ_HZ * micro t * rampMul t * breathe t)"

text \<open>Line 372.\<close>

definition clearLeds :: "CRGB list \<Rightarrow> CRGB list" where
  "clearLeds l = foldl (\<lambda>l i. l[i := Black]) l [0..<NUM_LEDS]"

text \<open>Lines 375--385: the colour computed for logical position \<open>i\<close>, and the loop.\<close>

definition leftCoreColor :: "real \<Rightarrow> nat \<Rightarrow> CRGB" where
  "leftCoreColor t i =
     (let mask = spiralMask (int i) t (0.25 + LEFT_FREQ_HZ * 0.02);
          amp = finalL t * mask
      in scaled leftColor amp)"

definition leftCore :: "real \<Rightarrow> CRGB list \<Rightarrow> CRGB list" where
  "leftCore t l = foldl (\<lambda>l i. l[spiralOrder ! i := leftCoreColor t i]) l [0..<3]"

text \<open>Lines 388--398.\<close>

definition rightCoreColor :: "real \<Rightarrow> nat \<Rightarrow> CRGB" where
  "rightCoreColor t i =
     (let mask = spiralMask (int i) t (0.25 + RIGHT_FREQ_HZ * 0.02);
          amp = finalR t * mask
      in scaled rightColor amp)"

definition rightCore :: "real \<Rightarrow> CRGB list \<Rightarrow> CRGB list" where
  "rightCore t l =
     foldl (\<lambda>l i. l[spiralOrder ! i := rightCoreColor t i]) l [NUM_LEDS - 3..<NUM_LEDS]"

text \<open>Lines 401--410.\<close>

definition centerAmp :: "real \<Rightarrow> real" where
  "centerAmp t = clamp01 ((finalL t + finalR t) * 0.5)"

definition centerAnchors :: "real \<Rightarrow> CRGB list \<Rightarrow> CRGB list" where
  "centerAnchors t l =
     (let c0 = spiralOrder ! 0; c1 = spiralOrder ! 1;
          l = l[c0 := scaled centerColor (centerAmp t)]
      in l[c1 := l ! c0])"

text \<open>Lines 416--430: the integers \<^verbatim>\<open>r\<close>, \<^verbatim>\<open>g\<close>, \<^verbatim>\<open>b\<close> of main-body position \<open>pos\<close>.\<close>

definition bodyMask :: "real \<Rightarrow> nat \<Rightarrow> real" where
  "bodyMask t pos =
     (let mode = mandalaMode t;
          mask = (if mode = 0 then
                    radialMask (int pos) t ((LEFT_FREQ_HZ + RIGHT_FREQ_HZ) * 0.5) 8
                  else if mode = 1 then
                    spiralMask (int pos) t (0.3 + 0.02 * ((LEFT_FREQ_HZ + RIGHT_FREQ_HZ) * 0.5))
                  else interferenceMask (int pos) t LEFT_FREQ_HZ RIGHT_FREQ_HZ)
      in clamp01 mask)"

definition mixedAmp :: "real \<Rightarrow> nat \<Rightarrow> real" where
  "mixedAmp t pos =
     (let stereoMix = (if pos < NUM_LEDS div 2 then 0.8 else 0.2)
      in clamp01 (bodyMask t pos * (stereoMix * finalL t + (1 - stereoMix) * finalR t)))"

definition blended :: CRGB where
  "blended = mixColor centerColor (mixColor leftColor rightColor 0.5) 0.6"

definition bodyRGB :: "real \<Rightarrow> nat \<Rightarrow> int \<times> int \<times> int" where
  "bodyRGB t pos =
     (float_to_int (chan (red blended) * mixedAmp t pos),
      float_to_int (chan (green blended) * mixedAmp t pos),
      float_to_int (chan (blue blended) * mixedAmp t pos))"

text \<open>Line 432: the primary colour stored at the position.\<close>

definition primaryColor :: "int \<times> int \<times> int \<Rightarrow> CRGB" where
  "primaryColor rgb = (case rgb of (r, g, b) \<Rightarrow> CRGB (safeClampInt r) (safeClampInt g) (safeClampInt b))"

text \<open>Lines 438--440: the echo added to the pixel \<open>c\<close> already stored at the target.\<close>

definition echoAmount :: "int \<Rightarrow> 8 word" where
  "echoAmount v = float_to_uint8 (real_of_int v * REFLECTION_DECAY)"

definition addEcho :: "CRGB \<Rightarrow> int \<times> int \<times> int \<Rightarrow> CRGB" where
  "addEcho c rgb = (case rgb of (r, g, b) \<Rightarrow>
     CRGB (qadd8 (red c) (echoAmount r)) (qadd8 (green c) (echoAmount g))
          (qadd8 (blue c) (echoAmount b)))"

text \<open>One pass of the loop of lines 413--442, and the loop.\<close>

definition bodyStep :: "real \<Rightarrow> CRGB list \<Rightarrow> nat \<Rightarrow> CRGB list" where
  "bodyStep t l pos =
     (let idx = spiralOrder ! pos;
          rgb = bodyRGB t pos;
          l = l[idx := primaryColor rgb];
          echoPos = pos + REFLECTION_OFFSET
      in if echoPos < NUM_LEDS then
           (let echoIdx = spiralOrder ! echoPos in l[echoIdx := addEcho (l ! echoIdx) rgb])
         else l)"

definition mainBody :: "real \<Rightarrow> CRGB list \<Rightarrow> CRGB list" where
  "mainBody t l = foldl (bodyStep t) l [2..<NUM_LEDS - 2]"

definition render :: "real \<Rightarrow> CRGB list \<Rightarrow> CRGB list" where
  "render t l = mainBody t (centerAnchors t (rightCore t (leftCore t (clearLeds l))))"

section \<open>\<^verbatim>\<open>setup\<close> and \<^verbatim>\<open>loop\<close>\<close>

text \<open>Lines 99--106. \<^verbatim>\<open>timerBegin\<close> belongs to the board support package; its result
  (\<open>None\<close> for \<^verbatim>\<open>NULL\<close>) is an input. The function stores it and returns nothing.\<close>

definition initHardwareTimer :: "nat option \<Rightarrow> machine \<Rightarrow> machine" where
  "initHardwareTimer timerBegin m = m\<lparr>timer := timerBegin\<rparr>"

record setup_inputs =
  timerBegin :: "nat option"
  millis0 :: "32 word"
  timerMicros0 :: "64 word"

text \<open>The globals before \<^verbatim>\<open>setup\<close> runs (zero-initialised, lines 36, 89, 246, 247);
  FastLED starts at full brightness.\<close>

definition power_on :: machine where
  "power_on = \<lparr>leds = replicate NUM_LEDS Black, brightness = 255, lastFrameMs = 0,
     tStart = 0, timer = None, control = Looping\<rparr>"

text \<open>Lines 252--288: \<^verbatim>\<open>setup()\<close> (the name is reserved in Isabelle).\<close>

definition setup_device :: "setup_inputs \<Rightarrow> machine \<times> event list" where
  "setup_device si =
     (let m = initHardwareTimer (timerBegin si) power_on;
          m = m\<lparr>brightness := GLOBAL_BRIGHTNESS\<rparr>;
          m = m\<lparr>leds := fill_solid (leds m) NUM_LEDS Black\<rparr>;
          m = m\<lparr>tStart := getTimeSeconds (timerMicros0 si)\<rparr>;
          m = m\<lparr>lastFrameMs := millis0 si\<rparr>
      in (m,
          [Println ''========================================'',
           Println ''ESP32 Theta Entrainment System'',
           Println ''Research-Grade Version'',
           Println ''========================================'',
           Println ''Hardware timer initialized'',
           Println ''Panic button configured on pin 14'',
           Printf ''LED strip initialized: 20 LEDs on pin 12'',
           Show (leds m) (brightness m),
           Printf ''Left frequency: 5.80 Hz'',
           Printf ''Right frequency: 6.20 Hz'',
           Printf ''Max session time: 1800 seconds (30.0 minutes)'',
           Printf ''Ramp-in time: 180 seconds (3.0 minutes)'',
           Println ''System ready. Session started.'',
           Println ''========================================'']))"

text \<open>Lines 315--444: the part of \<^verbatim>\<open>loop\<close> after the frame-rate gate, at session
  time \<open>t\<close>.\<close>

definition frame :: "machine \<Rightarrow> real \<Rightarrow> machine \<times> event list" where
  "frame m t =
     (if t > MAX_SESSION_SECONDS \<and> fadeFrac t \<le> 0.01 then
        (let l = fill_solid (leds m) NUM_LEDS Black in
         (m\<lparr>leds := l, control := Halted\<rparr>,
          [Println ''Session timeout reached. Shutting down.'', Show l (brightness m)]))
      else
        (let b = (if t > MAX_SESSION_SECONDS then
                    float_to_uint8 (chan GLOBAL_BRIGHTNESS * (fadeFrac t * fadeFrac t))
                  else brightness m);
             l = render t (leds m)
         in (m\<lparr>leds := l, brightness := b\<rparr>, [Show l b])))"

text \<open>Lines 293--445: one call of \<^verbatim>\<open>loop()\<close>, up to its return or to the point where
  it enters a \<^verbatim>\<open>while (true)\<close>.\<close>

definition loop :: "machine \<Rightarrow> inputs \<Rightarrow> machine \<times> event list" where
  "loop m inp =
     (if panicPin inp = LOW then
        (let l = fill_solid (leds m) NUM_LEDS Black in
         (m\<lparr>leds := l, control := PanicHalted\<rparr>,
          [Println ''!!! PANIC STOP ACTIVATED !!!'', Show l (brightness m)]))
      else if millis inp - lastFrameMs m < FRAME_MS then (m, [])
      else frame (m\<lparr>lastFrameMs := millis inp\<rparr>)
             (getTimeSeconds (timerMicros inp) - tStart m))"

text \<open>One pass of the \<^verbatim>\<open>while (true)\<close> of lines 300--306: wait a second, read the pin,
  report a release. Nothing leaves the loop.\<close>

definition panicSpin :: "machine \<Rightarrow> inputs \<Rightarrow> machine \<times> event list" where
  "panicSpin m inp =
     (m, if panicPin inp = HIGH then [Println ''Panic button released. System halted.''] else [])"

text \<open>One pass of \<^verbatim>\<open>while (true) delay(1000)\<close> of line 329.\<close>

definition haltedSpin :: "machine \<Rightarrow> inputs \<Rightarrow> machine \<times> event list" where
  "haltedSpin m inp = (m, [])"

text \<open>One step of the device: a call of \<^verbatim>\<open>loop()\<close>, or one pass of the loop the
  program is caught in.\<close>

definition step :: "machine \<Rightarrow> inputs \<Rightarrow> machine \<times> event list" where
  "step m inp = (case control m of
       Looping \<Rightarrow> loop m inp
     | PanicHalted \<Rightarrow> panicSpin m inp
     | Halted \<Rightarrow> haltedSpin m inp)"

text \<open>A run: the state after a sequence of steps, and everything sent out on the way.\<close>

fun run :: "machine \<Rightarrow> inputs list \<Rightarrow> machine \<times> event list" where
  "run m [] = (m, [])"
| "run m (inp # inps) =
     (case step m inp of (m', es) \<Rightarrow> (case run m' inps of (m'', es') \<Rightarrow> (m'', es @ es')))"

text \<open>The states the device can be in: after \<^verbatim>\<open>setup\<close>, and after any step from one
  of them.\<close>

inductive reachable :: "machine \<Rightarrow> bool" where
  after_setup: "reachable (fst (setup_device si))"
| after_step: "reachable m \<Longrightarrow> reachable (fst (step m inp))"

section \<open>The ramp in binary32 arithmetic\<close>




section \<open>Concrete scenarios\<close>

text \<open>Inputs used to instantiate the results below. Two starts of the device, one in
  which \<^verbatim>\<open>timerBegin\<close> returned a handle and one in which it returned \<^verbatim>\<open>NULL\<close>.\<close>

definition si0 :: setup_inputs where
  "si0 = \<lparr>timerBegin = Some 0, millis0 = 500, timerMicros0 = 0\<rparr>"

definition si_fail :: setup_inputs where
  "si_fail = \<lparr>timerBegin = None, millis0 = 500, timerMicros0 = 0\<rparr>"

text \<open>Readings of the inputs: the button pressed 100 s into the session and released a
  second later; a reading 1816 s into the session; the first frame of a session, 10 ms
  after the start; and that frame once more, 10 ms later on \<^verbatim>\<open>millis()\<close> with the same
  reading of the tick counter.\<close>

definition press :: inputs where
  "press = \<lparr>panicPin = LOW, millis = 600, timerMicros = 100000000\<rparr>"

definition release :: inputs where
  "release = \<lparr>panicPin = HIGH, millis = 1600, timerMicros = 101000000\<rparr>"

definition late :: inputs where
  "late = \<lparr>panicPin = HIGH, millis = 1816500, timerMicros = 1816000000\<rparr>"

definition first_frame :: inputs where
  "first_frame = \<lparr>panicPin = HIGH, millis = 510, timerMicros = 10000\<rparr>"

definition first_frame_again :: inputs where
  "first_frame_again = \<lparr>panicPin = HIGH, millis = 520, timerMicros = 10000\<rparr>"

text \<open>A call of \<^verbatim>\<open>loop()\<close> 200 s into a session, frame due, panic input not asserted.\<close>

definition frame_200 :: inputs where
  "frame_200 = \<lparr>panicPin = HIGH, millis = 200500, timerMicros = 200000000\<rparr>"

text \<open>The lines \<^verbatim>\<open>setup()\<close> sends out (lines 256--287), with the black frame of line 275.\<close>

definition setup_messages :: "event list" where
  "setup_messages =
     [Println ''========================================'',
      Println ''ESP32 Theta Entrainment System'',
      Println ''Research-Grade Version'',
      Println ''========================================'',
      Println ''Hardware timer initialized'',
      Println ''Panic button configured on pin 14'',
      Printf ''LED strip initialized: 20 LEDs on pin 12'',
      Show (replicate NUM_LEDS Black) GLOBAL_BRIGHTNESS,
      Printf ''Left frequency: 5.80 Hz'',
      Printf ''Right frequency: 6.20 Hz'',
      Printf ''Max session time: 1800 seconds (30.0 minutes)'',
      Printf ''Ramp-in time: 180 seconds (3.0 minutes)'',
      Println ''System ready. Session started.'',
      Println ''========================================'']"

text \<open>The brightness in force for a frame at session time \<open>t\<close>: the value line 333 sets
  during the fade-out, and before it the value \<^verbatim>\<open>setup()\<close> set (line 271).\<close>

definition frameBrightness :: "real \<Rightarrow> 8 word" where
  "frameBrightness t =
     (if t > MAX_SESSION_SECONDS then
        float_to_uint8 (chan GLOBAL_BRIGHTNESS * (fadeFrac t * fadeFrac t))
      else GLOBAL_BRIGHTNESS)"

section \<open>Basic facts about the buffer\<close>

lemma fill_loop_eq:
  "n \<le> length l \<Longrightarrow> foldl (\<lambda>l i. l[i := c]) l [0..<n] = replicate n c @ drop n l"
proof (induction n)
  case 0
  then show ?case by simp
next
  case (Suc n)
  then have n: "n < length l" by simp
  have "foldl (\<lambda>l i. l[i := c]) l [0..<Suc n] = (replicate n c @ drop n l)[n := c]"
    using Suc by simp
  also have "\<dots> = replicate n c @ (drop n l)[0 := c]"
    by (simp add: list_update_append)
  also have "drop n l = l ! n # drop (Suc n) l"
    using n by (simp add: Cons_nth_drop_Suc)
  finally show ?case by (simp add: replicate_append_same)
qed

lemma fill_solid_all:
  "length l = NUM_LEDS \<Longrightarrow> fill_solid l NUM_LEDS c = replicate NUM_LEDS c"
  by (simp add: fill_solid_def fill_loop_eq)

lemma clearLeds_all:
  "length l = NUM_LEDS \<Longrightarrow> clearLeds l = replicate NUM_LEDS Black"
  by (simp add: clearLeds_def fill_loop_eq)

lemma length_bodyStep [simp]: "length (bodyStep t l pos) = length l"
  by (simp add: bodyStep_def Let_def)

lemma length_foldl_bodyStep [simp]: "length (foldl (bodyStep t) l ps) = length l"
  by (induction ps arbitrary: l) simp_all

lemma length_store_loop [simp]:
  "length (foldl (\<lambda>l i. l[f i := g i]) l xs) = length l"
  by (induction xs arbitrary: l) simp_all

lemma length_centerAnchors [simp]: "length (centerAnchors t l) = length l"
  by (simp add: centerAnchors_def Let_def)

lemma length_rightCore [simp]: "length (rightCore t l) = length l"
  by (simp add: rightCore_def)

lemma length_leftCore [simp]: "length (leftCore t l) = length l"
  by (simp add: leftCore_def)

lemma length_mainBody [simp]: "length (mainBody t l) = length l"
  by (simp add: mainBody_def)

lemma length_render [simp]: "length l = NUM_LEDS \<Longrightarrow> length (render t l) = NUM_LEDS"
  by (simp add: render_def clearLeds_all)

lemma render_fresh:
  "length l = NUM_LEDS \<Longrightarrow> render t l = render t (replicate NUM_LEDS Black)"
  by (simp add: render_def clearLeds_all)

lemma upt_cores: "[0..<3] = [0,1,2]" "[17..<20] = [17,18,19]"
  by code_simp+

lemma upt_body: "[2..<18] = [2,3,4,5,6,7,8,9,10,11,12,13,14,15,16,17]"
  by code_simp

lemma spiralOrder_nth:
  "spiralOrder ! 0 = 9" "spiralOrder ! 1 = 10" "spiralOrder ! 2 = 8" "spiralOrder ! 3 = 11"
  "spiralOrder ! 4 = 7" "spiralOrder ! 5 = 12" "spiralOrder ! 6 = 6" "spiralOrder ! 7 = 13"
  "spiralOrder ! 8 = 5" "spiralOrder ! 9 = 14" "spiralOrder ! 10 = 4" "spiralOrder ! 11 = 15"
  "spiralOrder ! 12 = 3" "spiralOrder ! 13 = 16" "spiralOrder ! 14 = 2" "spiralOrder ! 15 = 17"
  "spiralOrder ! 16 = 1" "spiralOrder ! 17 = 18" "spiralOrder ! 18 = 0" "spiralOrder ! 19 = 19"
  "spiralOrder ! Suc 0 = 10"
  by (simp_all add: spiralOrder_def)

lemmas render_simps = render_def mainBody_def centerAnchors_def rightCore_def leftCore_def
  clearLeds_all bodyStep_def Let_def NUM_LEDS_def REFLECTION_OFFSET_def spiralOrder_nth
  upt_cores upt_body

lemma render_tail:
  "render t (replicate NUM_LEDS Black) ! 0 = addEcho (rightCoreColor t 18) (bodyRGB t 16)"
  "render t (replicate NUM_LEDS Black) ! 19 = addEcho (rightCoreColor t 19) (bodyRGB t 17)"
  by (simp_all add: render_simps)

lemma render_anchor:
  "render t (replicate NUM_LEDS Black) ! 9 = scaled centerColor (centerAmp t)"
  "render t (replicate NUM_LEDS Black) ! 10 = scaled centerColor (centerAmp t)"
  by (simp_all add: render_simps)

lemma render_body:
  "render t (replicate NUM_LEDS Black) ! 8 = primaryColor (bodyRGB t 2)"
  "render t (replicate NUM_LEDS Black) ! 11 = primaryColor (bodyRGB t 3)"
  "render t (replicate NUM_LEDS Black) ! 7 = primaryColor (bodyRGB t 4)"
  "render t (replicate NUM_LEDS Black) ! 12 = primaryColor (bodyRGB t 5)"
  "render t (replicate NUM_LEDS Black) ! 6 = primaryColor (bodyRGB t 6)"
  "render t (replicate NUM_LEDS Black) ! 13 = primaryColor (bodyRGB t 7)"
  "render t (replicate NUM_LEDS Black) ! 5 = primaryColor (bodyRGB t 8)"
  "render t (replicate NUM_LEDS Black) ! 14 = primaryColor (bodyRGB t 9)"
  "render t (replicate NUM_LEDS Black) ! 4 = primaryColor (bodyRGB t 10)"
  "render t (replicate NUM_LEDS Black) ! 15 = primaryColor (bodyRGB t 11)"
  "render t (replicate NUM_LEDS Black) ! 3 = primaryColor (bodyRGB t 12)"
  "render t (replicate NUM_LEDS Black) ! 16 = primaryColor (bodyRGB t 13)"
  "render t (replicate NUM_LEDS Black) ! 2 = primaryColor (bodyRGB t 14)"
  "render t (replicate NUM_LEDS Black) ! 17 = primaryColor (bodyRGB t 15)"
  "render t (replicate NUM_LEDS Black) ! 1 = primaryColor (bodyRGB t 16)"
  "render t (replicate NUM_LEDS Black) ! 18 = primaryColor (bodyRGB t 17)"
  by (simp_all add: render_simps)

lemma render_body_16: "render t (replicate NUM_LEDS Black) ! Suc 0 = primaryColor (bodyRGB t 16)"
  using render_body(15) [of t] by simp

lemma body_positions: "{2..<NUM_LEDS - 2} = set [2,3,4,5,6,7,8,9,10,11,12,13,14,15,16,17]"
proof -
  have "{2..<NUM_LEDS - 2} = set [2..<18]" by (simp only: set_upt NUM_LEDS_def) simp
  then show ?thesis by (simp only: upt_body)
qed

lemma tail_positions: "{NUM_LEDS - REFLECTION_OFFSET..<NUM_LEDS} = set [18, 19]"
proof -
  have "[18..<20] = [18, 19]" by code_simp
  moreover have "{NUM_LEDS - REFLECTION_OFFSET..<NUM_LEDS} = set [18..<20]"
    by (simp only: set_upt NUM_LEDS_def REFLECTION_OFFSET_def) simp
  ultimately show ?thesis by (simp only:)
qed

lemma distinct_spiralOrder: "distinct spiralOrder" "length spiralOrder = NUM_LEDS"
  by (simp_all add: spiralOrder_def NUM_LEDS_def)

lemma spiralOrder_bound: "pos < NUM_LEDS \<Longrightarrow> spiralOrder ! pos < NUM_LEDS"
proof -
  assume "pos < NUM_LEDS"
  then have "spiralOrder ! pos \<in> set spiralOrder" by (simp add: distinct_spiralOrder)
  then show ?thesis by (auto simp: spiralOrder_def NUM_LEDS_def)
qed

lemma bodyStep_echo_target:
  assumes len: "length l = NUM_LEDS" and pos: "pos + REFLECTION_OFFSET < NUM_LEDS"
  shows "bodyStep t l pos ! (spiralOrder ! (pos + REFLECTION_OFFSET)) =
           addEcho (l ! (spiralOrder ! (pos + REFLECTION_OFFSET))) (bodyRGB t pos)"
proof -
  have p: "pos < NUM_LEDS" using pos by simp
  have ne: "spiralOrder ! pos \<noteq> spiralOrder ! (pos + REFLECTION_OFFSET)"
    using pos p distinct_spiralOrder
    by (simp add: nth_eq_iff_index_eq REFLECTION_OFFSET_def)
  show ?thesis
    using pos ne spiralOrder_bound [OF pos] len
    by (simp add: bodyStep_def Let_def)
qed

lemma upt_20: "[0..<20] = [0,1,2,3,4,5,6,7,8,9,10,11,12,13,14,15,16,17,18,19]"
  by code_simp

lemma left_core_dead:
  "render t (replicate NUM_LEDS Black) =
     mainBody t (centerAnchors t (rightCore t (replicate NUM_LEDS Black)))"
proof (rule nth_equalityI)
  show "length (render t (replicate NUM_LEDS Black)) =
      length (mainBody t (centerAnchors t (rightCore t (replicate NUM_LEDS Black))))"
    by simp
next
  fix i
  assume "i < length (render t (replicate NUM_LEDS Black))"
  then have "i \<in> set [0..<20]" by (simp add: NUM_LEDS_def)
  then have "i \<in> set [0,1,2,3,4,5,6,7,8,9,10,11,12,13,14,15,16,17,18,19]"
    by (simp only: upt_20)
  then show "render t (replicate NUM_LEDS Black) ! i =
      mainBody t (centerAnchors t (rightCore t (replicate NUM_LEDS Black))) ! i"
    by (auto simp: render_simps)
qed

section \<open>Basic facts about the device\<close>

lemma reachable_inv:
  "reachable m \<Longrightarrow>
     length (leds m) = NUM_LEDS \<and> (control m \<noteq> Looping \<longrightarrow> leds m = replicate NUM_LEDS Black)"
proof (induction rule: reachable.induct)
  case (after_setup si)
  show ?case
    by (simp add: setup_device_def initHardwareTimer_def power_on_def fill_solid_all Let_def)
next
  case (after_step m inp)
  then show ?case
    by (cases "control m")
       (auto simp: step_def loop_def frame_def panicSpin_def haltedSpin_def fill_solid_all Let_def)
qed

lemma loop_panic:
  "length (leds m) = NUM_LEDS \<Longrightarrow> panicPin inp = LOW \<Longrightarrow>
   loop m inp = (m\<lparr>leds := replicate NUM_LEDS Black, control := PanicHalted\<rparr>,
                 [Println ''!!! PANIC STOP ACTIVATED !!!'',
                  Show (replicate NUM_LEDS Black) (brightness m)])"
  by (simp add: loop_def fill_solid_all Let_def)

lemma run_PanicHalted:
  "control m = PanicHalted \<Longrightarrow>
     fst (run m inps) = m \<and>
     snd (run m inps) =
       map (\<lambda>_. Println ''Panic button released. System halted.'')
         (filter (\<lambda>inp. panicPin inp = HIGH) inps)"
  by (induction inps) (auto simp: step_def panicSpin_def split: prod.splits)

lemma run_Halted: "control m = Halted \<Longrightarrow> run m inps = (m, [])"
  by (induction inps) (simp_all add: step_def haltedSpin_def)

lemma frame_over:
  "length (leds m) = NUM_LEDS \<Longrightarrow> sessionOver t \<Longrightarrow>
   frame m t = (m\<lparr>leds := replicate NUM_LEDS Black, control := Halted\<rparr>,
                [Println ''Session timeout reached. Shutting down.'',
                 Show (replicate NUM_LEDS Black) (brightness m)])"
  by (simp add: frame_def sessionOver_def fill_solid_all Let_def)

lemma frame_render:
  "\<not> sessionOver t \<Longrightarrow>
   frame m t =
     (m\<lparr>leds := render t (leds m),
        brightness := (if t > MAX_SESSION_SECONDS then
                    float_to_uint8 (chan GLOBAL_BRIGHTNESS * (fadeFrac t * fadeFrac t))
                  else brightness m)\<rparr>,
      [Show (render t (leds m)) (if t > MAX_SESSION_SECONDS then
                    float_to_uint8 (chan GLOBAL_BRIGHTNESS * (fadeFrac t * fadeFrac t))
                  else brightness m)])"
  by (simp add: frame_def sessionOver_def Let_def)

lemma frame_leds:
  "\<not> sessionOver t \<Longrightarrow> length (leds m) = NUM_LEDS \<Longrightarrow>
   leds (fst (frame m t)) = render t (replicate NUM_LEDS Black) \<and>
   snd (frame m t) = [Show (leds (fst (frame m t))) (brightness (fst (frame m t)))]"
  using render_fresh [of "leds m" t] by (simp add: frame_render)

lemma setup_si0:
  "fst (setup_device si0) = \<lparr>leds = replicate NUM_LEDS Black, brightness = GLOBAL_BRIGHTNESS,
     lastFrameMs = 500, tStart = 0, timer = Some 0, control = Looping\<rparr>"
  by (simp add: setup_device_def si0_def initHardwareTimer_def power_on_def fill_solid_all Let_def
      getTimeSeconds_def)

lemma setup_si_fail:
  "fst (setup_device si_fail) = \<lparr>leds = replicate NUM_LEDS Black, brightness = GLOBAL_BRIGHTNESS,
     lastFrameMs = 500, tStart = 0, timer = None, control = Looping\<rparr>"
  by (simp add: setup_device_def si_fail_def initHardwareTimer_def power_on_def fill_solid_all Let_def
      getTimeSeconds_def)

lemma setup_brightness: "brightness (fst (setup_device si)) = GLOBAL_BRIGHTNESS"
  by (simp add: setup_device_def initHardwareTimer_def power_on_def Let_def)

lemma run_Cons_fst: "fst (run m (inp # inps)) = fst (run (fst (step m inp)) inps)"
  by (cases "step m inp"; cases "run (fst (step m inp)) inps") simp

lemma step_tStart: "tStart (fst (step m inp)) = tStart m"
  by (cases "control m")
     (simp_all add: step_def loop_def frame_def panicSpin_def haltedSpin_def Let_def)

lemma step_brightness_early:
  "getTimeSeconds (timerMicros inp) - tStart m \<le> MAX_SESSION_SECONDS \<Longrightarrow>
   brightness (fst (step m inp)) = brightness m"
  by (cases "control m")
     (simp_all add: step_def loop_def frame_def panicSpin_def haltedSpin_def Let_def)

lemma run_early:
  "\<forall>i \<in> set inps. getTimeSeconds (timerMicros i) - tStart m \<le> MAX_SESSION_SECONDS \<Longrightarrow>
   brightness (fst (run m inps)) = brightness m"
proof (induction inps arbitrary: m)
  case Nil
  then show ?case by simp
next
  case (Cons inp inps)
  have "brightness (fst (run (fst (step m inp)) inps)) = brightness (fst (step m inp))"
    using Cons.prems by (intro Cons.IH) (simp add: step_tStart)
  then show ?case
    using Cons.prems step_brightness_early [of inp m] by (simp only: run_Cons_fst) simp
qed

lemma run_tStart: "tStart (fst (run m inps)) = tStart m"
proof (induction inps arbitrary: m)
  case Nil
  then show ?case by simp
next
  case (Cons inp inps)
  from Cons.IH [of "fst (step m inp)"] show ?case
    by (simp only: run_Cons_fst step_tStart)
qed

lemma reachable_run: "reachable m \<Longrightarrow> reachable (fst (run m inps))"
proof (induction inps arbitrary: m)
  case Nil
  then show ?case by simp
next
  case (Cons inp inps)
  from Cons.IH [OF reachable.after_step [OF Cons.prems, of inp]] show ?case
    by (simp only: run_Cons_fst)
qed

lemma getTimeSeconds_mono:
  assumes "a \<le> b"
  shows "getTimeSeconds a \<le> getTimeSeconds b"
proof -
  have "unat a \<le> unat b" using assms by (simp add: word_le_nat_alt)
  then have "real (unat a) \<le> real (unat b)" by (rule of_nat_mono)
  then show ?thesis unfolding getTimeSeconds_def by (rule mult_right_mono) simp
qed

lemma session_frame:
  assumes m: "m = fst (run (fst (setup_device si)) inps)"
    and mono: "\<forall>i \<in> set inps. timerMicros i \<le> timerMicros inp"
    and ctl: "control m = Looping" and pin: "panicPin inp = HIGH"
    and due: "\<not> millis inp - lastFrameMs m < FRAME_MS"
    and t: "getTimeSeconds (timerMicros inp) - tStart m = t"
    and live: "\<not> sessionOver t"
  shows "leds (fst (step m inp)) = render t (replicate NUM_LEDS Black)"
    and "brightness (fst (step m inp)) = frameBrightness t"
    and "snd (step m inp) = [Show (render t (replicate NUM_LEDS Black)) (frameBrightness t)]"
proof -
  have "reachable m" unfolding m by (intro reachable_run reachable.after_setup)
  then have len: "length (leds m) = NUM_LEDS" using reachable_inv by simp
  have ts: "tStart m = tStart (fst (setup_device si))" unfolding m by (rule run_tStart)
  have b: "brightness m = GLOBAL_BRIGHTNESS" if early: "t \<le> MAX_SESSION_SECONDS"
  proof -
    have "\<forall>i \<in> set inps. getTimeSeconds (timerMicros i) - tStart (fst (setup_device si))
            \<le> MAX_SESSION_SECONDS"
    proof
      fix i assume "i \<in> set inps"
      then have "getTimeSeconds (timerMicros i) \<le> getTimeSeconds (timerMicros inp)"
        using mono by (intro getTimeSeconds_mono) simp
      then show "getTimeSeconds (timerMicros i) - tStart (fst (setup_device si))
            \<le> MAX_SESSION_SECONDS"
        using t early ts by simp
    qed
    from run_early [OF this] show ?thesis unfolding m by (simp add: setup_brightness)
  qed
  have s: "step m inp = frame (m\<lparr>lastFrameMs := millis inp\<rparr>) t"
    using ctl pin due t by (simp add: step_def loop_def)
  have fb: "(if t > MAX_SESSION_SECONDS then
               float_to_uint8 (chan GLOBAL_BRIGHTNESS * (fadeFrac t * fadeFrac t))
             else brightness m) = frameBrightness t"
    using b by (simp add: frameBrightness_def)
  have r: "render t (leds m) = render t (replicate NUM_LEDS Black)"
    using len by (rule render_fresh)
  show "leds (fst (step m inp)) = render t (replicate NUM_LEDS Black)"
    and "brightness (fst (step m inp)) = frameBrightness t"
    and "snd (step m inp) = [Show (render t (replicate NUM_LEDS Black)) (frameBrightness t)]"
    unfolding s frame_render [OF live] using fb r by (simp_all split: if_splits)
qed

section \<open>Arithmetic of the envelope, the phase and the colours\<close>


lemma float_to_int_pos: "0 \<le> x \<Longrightarrow> real_of_int n \<le> x \<Longrightarrow> x < real_of_int n + 1 \<Longrightarrow> float_to_int x = n"
  unfolding float_to_int_def by (simp add: floor_unique)

lemma float_to_int_range:
  assumes "0 \<le> x" "x \<le> real_of_int n"
  shows "0 \<le> float_to_int x" "float_to_int x \<le> n"
  using assms by (simp_all add: float_to_int_def floor_le_iff)



lemma clamp01_range: "0 \<le> clamp01 v" "clamp01 v \<le> 1"
  by (simp_all add: clamp01_def)



lemma rampMul_steady: "RAMP_IN_SECONDS \<le> t \<Longrightarrow> rampMul t = 1"
  by (simp add: rampMul_def clamp01_def RAMP_IN_SECONDS_def Let_def)



lemma unat_qadd8: "unat (qadd8 i j) = min 255 (unat i + unat j)"
proof (cases "unat i + unat j > 255")
  case True
  then show ?thesis by (simp add: qadd8_def Let_def)
next
  case False
  then have "unat (of_nat (unat i + unat j) :: 8 word) = unat i + unat j"
    by (subst unat_of_nat) simp
  with False show ?thesis by (simp add: qadd8_def Let_def)
qed

lemma chan_range: "0 \<le> chan c" "chan c \<le> 255"
proof -
  show "0 \<le> chan c" unfolding chan_def by (rule of_nat_0_le_iff)
  have "unat c < 2 ^ 8" using unsigned_less [of c, where 'a = nat] by simp
  then have "unat c \<le> 255" by simp
  then have "real (unat c) \<le> real 255" by (rule of_nat_mono)
  then show "chan c \<le> 255" unfolding chan_def by simp
qed

lemma channel_scaled_range:
  assumes "0 \<le> a" "a \<le> 1"
  shows "0 \<le> float_to_int (chan c * a)" "float_to_int (chan c * a) \<le> 255"
proof -
  have "0 \<le> chan c * a" using assms chan_range by simp
  moreover have "chan c * a \<le> 255 * 1"
    using assms chan_range by (intro mult_mono) simp_all
  ultimately show "0 \<le> float_to_int (chan c * a)" "float_to_int (chan c * a) \<le> 255"
    using float_to_int_range [of "chan c * a" 255] by simp_all
qed

lemma mixedAmp_range: "0 \<le> mixedAmp t pos" "mixedAmp t pos \<le> 1"
  by (simp_all add: mixedAmp_def Let_def clamp01_range)

lemma echoAmount_unat:
  assumes "0 \<le> v" "v \<le> 255"
  shows "unat (echoAmount v) = nat (float_to_int (real_of_int v * REFLECTION_DECAY))"
    and "float_to_int (real_of_int v * REFLECTION_DECAY) \<le> 89"
proof -
  let ?k = "float_to_int (real_of_int v * REFLECTION_DECAY)"
  have "0 \<le> real_of_int v * REFLECTION_DECAY" using assms by (simp add: REFLECTION_DECAY_def)
  moreover have "real_of_int v * REFLECTION_DECAY \<le> 255 * 0.35"
    using assms by (simp add: REFLECTION_DECAY_def)
  then have "real_of_int v * REFLECTION_DECAY \<le> real_of_int 89 + 1 / 4" by simp
  ultimately have k: "0 \<le> ?k" "?k \<le> 89"
    by (simp_all add: float_to_int_def floor_le_iff)
  show "?k \<le> 89" by fact
  have "unat (word_of_int ?k :: 8 word) = nat (take_bit 8 ?k)"
    by (simp add: unsigned_of_int)
  moreover have "take_bit 8 ?k = ?k" using k by (simp add: take_bit_int_eq_self)
  ultimately show "unat (echoAmount v) = nat ?k"
    by (simp add: echoAmount_def float_to_uint8_def)
qed

lemma bodyRGB_range:
  "0 \<le> fst (bodyRGB t pos)" "fst (bodyRGB t pos) \<le> 255"
  "0 \<le> fst (snd (bodyRGB t pos))" "fst (snd (bodyRGB t pos)) \<le> 255"
  "0 \<le> snd (snd (bodyRGB t pos))" "snd (snd (bodyRGB t pos)) \<le> 255"
  using channel_scaled_range [OF mixedAmp_range, of _ t pos]
  by (simp_all add: bodyRGB_def)

lemma addEcho_channels:
  "red (addEcho c rgb) = qadd8 (red c) (echoAmount (fst rgb))"
  "green (addEcho c rgb) = qadd8 (green c) (echoAmount (fst (snd rgb)))"
  "blue (addEcho c rgb) = qadd8 (blue c) (echoAmount (snd (snd rgb)))"
  by (simp_all add: addEcho_def split: prod.splits)



lemma enhanced_phase_quarter:
  "phaseOf (5 / 116) LEFT_FREQ_HZ = 1 / 4"
  "getEnhancedPhase (5 / 116) LEFT_FREQ_HZ PHASE_SYNC_STRENGTH = 2 / 5"
proof -
  show p: "phaseOf (5 / 116) LEFT_FREQ_HZ = 1 / 4"
    by (simp add: phaseOf_def fmodf_def float_to_int_def LEFT_FREQ_HZ_def)
  have "TWO_PI * (1 / 4) = pi / 2" by (simp add: TWO_PI_def)
  then have "sin (TWO_PI * (1 / 4)) = 1" by (simp only: sin_pi_half)
  then have "getEnhancedPhase (5 / 116) LEFT_FREQ_HZ PHASE_SYNC_STRENGTH = fmodf (2 / 5) 1"
    by (simp add: getEnhancedPhase_def p USE_PHASE_ENHANCEMENT_def PHASE_SYNC_STRENGTH_def Let_def)
  also have "\<dots> = 2 / 5" by (simp add: fmodf_def float_to_int_def)
  finally show "getEnhancedPhase (5 / 116) LEFT_FREQ_HZ PHASE_SYNC_STRENGTH = 2 / 5" .
qed

section \<open>Evaluating the ramp in binary32\<close>









section \<open>The frame at 200 s\<close>

text \<open>At 200 s into a session that started at tick 0 the three sines of the amplitudes are
  at a zero crossing: both amplitudes are 0.5, the breathing envelope is 0.85, the ramp
  is complete, and both final amplitudes are 0.425.\<close>

lemma sin_two_pi_nat: "sin (TWO_PI * real n) = 0"
proof -
  have "TWO_PI * real n = real (2 * n) * pi" by (simp add: TWO_PI_def)
  then show ?thesis by (simp only: sin_npi)
qed

lemma chan_numeral: "chan 255 = 255" "chan 200 = 200" "chan 90 = 90" "chan 120 = 120"
  "chan 40 = 40" "chan 130 = 130" "chan 190 = 190" "chan 155 = 155" "chan 124 = 124"
  "chan 147 = 147" "chan 125 = 125"
  by (simp_all add: chan_def)

lemma sinModSmooth_200:
  "sinModSmooth 200 LEFT_FREQ_HZ = 1 / 2" "sinModSmooth 200 RIGHT_FREQ_HZ = 1 / 2"
  using sin_two_pi_nat [of 1160] sin_two_pi_nat [of 1240]
  by (simp_all add: sinModSmooth_def LEFT_FREQ_HZ_def RIGHT_FREQ_HZ_def Let_def)

lemma breathe_200: "breathe 200 = 17 / 20"
proof -
  have "TWO_PI * BREATH_FREQ_HZ * 200 = TWO_PI * real 24" by (simp add: BREATH_FREQ_HZ_def)
  then show ?thesis by (simp only: breathe_def sin_two_pi_nat) simp
qed

lemma final_200: "finalL 200 = 17 / 40" "finalR 200 = 17 / 40"
  by (simp_all add: finalL_def finalR_def ampOf_def USE_SINUSOIDAL_MODULATION_def sinModSmooth_200
      micro_def MICRO_ENABLED_def rampMul_steady RAMP_IN_SECONDS_def breathe_200 clamp01_def Let_def)

lemma centerAmp_200: "centerAmp 200 = 17 / 40"
  by (simp add: centerAmp_def final_200 clamp01_def)

lemma leftCoreColor_200: "leftCoreColor 200 0 = CRGB 86 40 13"
  by (simp add: leftCoreColor_def spiralMask_def fmodf_def LEFT_FREQ_HZ_def NUM_LEDS_def
      final_200 clamp01_def scaled_def leftColor_def chan_numeral float_to_int_def safeClampInt_def Let_def)

lemma blended_value: "blended = CRGB 190 155 124"
  by (simp add: blended_def mixColor_def centerColor_def leftColor_def rightColor_def chan_numeral
      float_to_int_def safeClampInt_def)

lemma mandalaMode_200: "mandalaMode 200 = 0"
  by (simp add: mandalaMode_def MODE_DURATION_def float_to_int_def signed_modulo_int_def)

lemma bodyRGB_200_5: "bodyRGB 200 5 = (40, 32, 26)"
proof -
  have "TWO_PI * (200 * ((LEFT_FREQ_HZ + RIGHT_FREQ_HZ) * 0.5) + real_of_int (int 5) / real NUM_LEDS * real_of_int 8)
        = TWO_PI * real 1202"
    by (simp add: LEFT_FREQ_HZ_def RIGHT_FREQ_HZ_def NUM_LEDS_def)
  then have "radialMask (int 5) 200 ((LEFT_FREQ_HZ + RIGHT_FREQ_HZ) * 0.5) 8 = 1 / 2"
    by (simp only: radialMask_def Let_def sin_two_pi_nat) (simp add: clamp01_def)
  then have "bodyMask 200 5 = 1 / 2"
    by (simp add: bodyMask_def mandalaMode_200 clamp01_def Let_def)
  then have m: "mixedAmp 200 5 = 17 / 80"
    by (simp add: mixedAmp_def final_200 NUM_LEDS_def clamp01_def Let_def)
  show ?thesis
    by (simp add: bodyRGB_def m blended_value chan_numeral float_to_int_def)
qed

lemma not_over_200: "\<not> sessionOver 200"
  by (simp add: sessionOver_def MAX_SESSION_SECONDS_def)

lemma anchor_red_200: "red (scaled centerColor (centerAmp 200)) = 108"
  by (simp add: scaled_def centerColor_def centerAmp_200 chan_numeral float_to_int_def safeClampInt_def)

section \<open>The panic stop\<close>

text \<open>
  C1. In every state the device can reach, a step taken with the panic input asserted
  (the pin reads \<open>LOW\<close>) leaves every pixel of the buffer at (0,0,0). While the program
  is in \<^verbatim>\<open>loop()\<close> the pin is the first thing read: the whole result of the call
  is fixed by the reading alone, whatever \<^verbatim>\<open>millis()\<close>, the clock and
  \<^verbatim>\<open>lastFrameMs\<close> are; the black buffer is handed to \<^verbatim>\<open>FastLED.show()\<close> in the same call.
\<close>

theorem panic_forces_black:
  assumes "reachable m" and "panicPin inp = LOW"
  shows "leds (fst (step m inp)) = replicate NUM_LEDS Black \<and>
         (control m = Looping \<longrightarrow>
            step m inp = (m\<lparr>leds := replicate NUM_LEDS Black, control := PanicHalted\<rparr>,
                          [Println ''!!! PANIC STOP ACTIVATED !!!'',
                           Show (replicate NUM_LEDS Black) (brightness m)]))"
proof -
  from reachable_inv [OF assms(1)]
  have len: "length (leds m) = NUM_LEDS"
    and blk: "control m \<noteq> Looping \<Longrightarrow> leds m = replicate NUM_LEDS Black"
    by simp_all
  show ?thesis
  proof (cases "control m")
    case Looping
    then show ?thesis using loop_panic [OF len assms(2)] by (simp add: step_def)
  next
    case PanicHalted
    then show ?thesis using blk by (simp add: step_def panicSpin_def)
  next
    case Halted
    then show ?thesis using blk by (simp add: step_def haltedSpin_def)
  qed
qed

theorem panic_forces_black_witness:
  "step (fst (setup_device si0)) press =
     (fst (setup_device si0)\<lparr>leds := replicate NUM_LEDS Black, control := PanicHalted\<rparr>,
      [Println ''!!! PANIC STOP ACTIVATED !!!'', Show (replicate NUM_LEDS Black) GLOBAL_BRIGHTNESS])"
  using panic_forces_black [OF reachable.after_setup [of si0], of press]
  by (simp add: press_def setup_si0)

text \<open>
  C2, as the code has it. Once the panic input has been asserted during \<^verbatim>\<open>loop()\<close>, the
  device is in \<open>PanicHalted\<close> with a black buffer and stays there whatever the inputs
  do afterwards: the state never changes again, no frame is rendered or shown, and the
  only effect of a released button is the line "Panic button released. System halted.",
  once per pass of the waiting loop. Leaving the state takes a reset of the device.
\<close>

theorem panic_halt_is_permanent:
  assumes "reachable m" and "control m = Looping" and "panicPin inp = LOW"
  shows "fst (run (fst (step m inp)) inps) = fst (step m inp) \<and>
         control (fst (step m inp)) = PanicHalted \<and>
         leds (fst (step m inp)) = replicate NUM_LEDS Black \<and>
         snd (run (fst (step m inp)) inps) =
           map (\<lambda>_. Println ''Panic button released. System halted.'')
             (filter (\<lambda>inp. panicPin inp = HIGH) inps)"
proof -
  have len: "length (leds m) = NUM_LEDS" using reachable_inv [OF assms(1)] by simp
  have c: "control (fst (step m inp)) = PanicHalted"
    and l: "leds (fst (step m inp)) = replicate NUM_LEDS Black"
    using loop_panic [OF len assms(3)] assms(2) by (simp_all add: step_def)
  show ?thesis using run_PanicHalted [OF c, of inps] c l by simp
qed

theorem panic_halt_is_permanent_witness:
  "run (fst (step (fst (setup_device si0)) press)) [release, press, release] =
     (fst (step (fst (setup_device si0)) press),
      [Println ''Panic button released. System halted.'',
       Println ''Panic button released. System halted.''])"
  using panic_halt_is_permanent [OF reachable.after_setup [of si0], of press "[release, press, release]"]
  by (simp add: press_def release_def setup_si0 prod_eq_iff)

text \<open>
  C2 as stated (release of the panic input resumes rendering) fails: after a press and a
  release the program is still in the waiting loop of lines 300--306, and the release
  produced a message and no frame.
\<close>

theorem panic_release_does_not_resume:
  "control (fst (run (fst (setup_device si0)) [press, release])) = PanicHalted \<and>
   snd (run (fst (setup_device si0)) [press, release]) =
     [Println ''!!! PANIC STOP ACTIVATED !!!'', Show (replicate NUM_LEDS Black) GLOBAL_BRIGHTNESS,
      Println ''Panic button released. System halted.'']"
  by (simp add: setup_si0 step_def loop_def panicSpin_def fill_solid_all Let_def press_def release_def)

section \<open>The safety envelope and the end of the session\<close>




text \<open>
  C4. A call of \<^verbatim>\<open>loop()\<close> enters \<open>Halted\<close> exactly when it gets as far as the safety
  envelope (panic input not asserted, frame due) and finds the session past
  \<^verbatim>\<open>MAX_SESSION_SECONDS\<close> with \<^verbatim>\<open>fade\<close> at most 0.01. On entry the buffer is all black and
  shown, the line "Session timeout reached. Shutting down." is printed, and from then on
  no input changes the state or produces any output: nothing is rendered again.
\<close>

theorem halted_entry_and_absorption:
  assumes "reachable m" and "control m = Looping"
  shows "(control (fst (step m inp)) = Halted \<longleftrightarrow>
            panicPin inp = HIGH \<and> \<not> millis inp - lastFrameMs m < FRAME_MS \<and>
            getTimeSeconds (timerMicros inp) - tStart m > MAX_SESSION_SECONDS \<and>
            fadeFrac (getTimeSeconds (timerMicros inp) - tStart m) \<le> 0.01) \<and>
         (control (fst (step m inp)) = Halted \<longrightarrow>
            leds (fst (step m inp)) = replicate NUM_LEDS Black \<and>
            snd (step m inp) = [Println ''Session timeout reached. Shutting down.'',
                                Show (replicate NUM_LEDS Black) (brightness m)] \<and>
            run (fst (step m inp)) inps = (fst (step m inp), []))"
proof -
  let ?t = "getTimeSeconds (timerMicros inp) - tStart m"
  have len: "length (leds m) = NUM_LEDS" using reachable_inv [OF assms(1)] by simp
  have s: "step m inp = loop m inp" using assms(2) by (simp add: step_def)
  show ?thesis
  proof (cases "panicPin inp = LOW")
    case True
    then show ?thesis using loop_panic [OF len True] s by simp
  next
    case False
    then have hi: "panicPin inp = HIGH" by (cases "panicPin inp") simp_all
    show ?thesis
    proof (cases "millis inp - lastFrameMs m < FRAME_MS")
      case True
      then show ?thesis using s hi assms(2) by (simp add: loop_def)
    next
      case gate: False
      have l: "loop m inp = frame (m\<lparr>lastFrameMs := millis inp\<rparr>) ?t"
        using hi gate by (simp add: loop_def)
      show ?thesis
      proof (cases "sessionOver ?t")
        case True
        have "step m inp = (m\<lparr>lastFrameMs := millis inp, leds := replicate NUM_LEDS Black, control := Halted\<rparr>,
                [Println ''Session timeout reached. Shutting down.'',
                 Show (replicate NUM_LEDS Black) (brightness m)])"
          using frame_over [of "m\<lparr>lastFrameMs := millis inp\<rparr>" ?t] len True s l by simp
        then show ?thesis using True hi gate by (simp add: run_Halted sessionOver_def)
      next
        case False
        then show ?thesis using s l hi gate assms(2) frame_render [OF False, of "m\<lparr>lastFrameMs := millis inp\<rparr>"]
          by (simp add: sessionOver_def)
      qed
    qed
  qed
qed

theorem halted_entry_and_absorption_witness:
  "control (fst (step (fst (setup_device si0)) late)) = Halted \<and>
   snd (step (fst (setup_device si0)) late) =
     [Println ''Session timeout reached. Shutting down.'',
      Show (replicate NUM_LEDS Black) GLOBAL_BRIGHTNESS] \<and>
   run (fst (step (fst (setup_device si0)) late)) [release, press] =
     (fst (step (fst (setup_device si0)) late), [])"
  using halted_entry_and_absorption [OF reachable.after_setup [of si0], of late "[release, press]"]
  by (simp add: setup_si0 late_def getTimeSeconds_def fadeFrac_def clamp01_def
      MAX_SESSION_SECONDS_def FRAME_MS_def)

section \<open>Start-up\<close>

text \<open>
  C5, as the code has it. \<^verbatim>\<open>setup()\<close> never looks at the result of \<^verbatim>\<open>timerBegin\<close>: whatever
  it is, the same lines are printed (among them "Hardware timer initialized", and no error),
  the handle is stored as it came, and control passes to \<^verbatim>\<open>loop()\<close>.
\<close>

theorem setup_ignores_timer_failure:
  "snd (setup_device si) = setup_messages \<and>
   control (fst (setup_device si)) = Looping \<and>
   timer (fst (setup_device si)) = timerBegin si"
  by (simp add: setup_device_def initHardwareTimer_def power_on_def fill_solid_all Let_def
      setup_messages_def)

text \<open>
  C5 as stated (a failed timer is reported as fatal and the render loop is not entered)
  fails: with \<^verbatim>\<open>timerBegin\<close> returning \<^verbatim>\<open>NULL\<close> the output of \<^verbatim>\<open>setup()\<close> is that of a good
  start, and the next call of \<^verbatim>\<open>loop()\<close> renders and shows a frame.
\<close>

theorem timer_failure_not_reported:
  "timer (fst (setup_device si_fail)) = None \<and>
   control (fst (setup_device si_fail)) = Looping \<and>
   snd (setup_device si_fail) = snd (setup_device si0) \<and>
   Println ''Hardware timer initialized'' \<in> set (snd (setup_device si_fail)) \<and>
   snd (step (fst (setup_device si_fail)) first_frame) =
     [Show (render (1 / 100) (replicate NUM_LEDS Black)) GLOBAL_BRIGHTNESS]"
proof -
  have "snd (setup_device si_fail) = snd (setup_device si0)"
    "Println ''Hardware timer initialized'' \<in> set (snd (setup_device si_fail))"
    by (simp_all add: setup_device_def initHardwareTimer_def power_on_def fill_solid_all Let_def
        si_fail_def si0_def)
  moreover have "snd (step (fst (setup_device si_fail)) first_frame) =
     [Show (render (1 / 100) (replicate NUM_LEDS Black)) GLOBAL_BRIGHTNESS]"
    by (simp add: setup_si_fail step_def loop_def frame_def first_frame_def getTimeSeconds_def
        FRAME_MS_def MAX_SESSION_SECONDS_def Let_def)
  ultimately show ?thesis by (simp add: setup_si_fail)
qed

section \<open>Frames as a function of time\<close>

text \<open>
  C6. Take two histories of the device since \<^verbatim>\<open>setup()\<close>, in each of which the tick counter
  never read more than it reads now (the clock is monotonic), and in each a call of
  \<^verbatim>\<open>loop()\<close> that computes a full frame: panic input not asserted, frame due, session not
  over. If the elapsed session time \<open>t\<close> is the same in both, the two calls leave the same
  pixel buffer and the same brightness and hand the same frame to \<^verbatim>\<open>FastLED.show()\<close>:
  buffer and brightness are the functions \<open>render t\<close> (of a cleared buffer) and
  \<open>frameBrightness t\<close> of \<open>t\<close> alone, whichever frames were computed before.
\<close>

theorem frame_is_a_function_of_time:
  assumes "m1 = fst (run (fst (setup_device si1)) inps1)"
    and "m2 = fst (run (fst (setup_device si2)) inps2)"
    and "\<forall>i \<in> set inps1. timerMicros i \<le> timerMicros inp1"
    and "\<forall>i \<in> set inps2. timerMicros i \<le> timerMicros inp2"
    and "control m1 = Looping" and "control m2 = Looping"
    and "panicPin inp1 = HIGH" and "panicPin inp2 = HIGH"
    and "\<not> millis inp1 - lastFrameMs m1 < FRAME_MS"
    and "\<not> millis inp2 - lastFrameMs m2 < FRAME_MS"
    and "getTimeSeconds (timerMicros inp1) - tStart m1 = t"
    and "getTimeSeconds (timerMicros inp2) - tStart m2 = t"
    and "\<not> sessionOver t"
  shows "leds (fst (step m1 inp1)) = leds (fst (step m2 inp2)) \<and>
         brightness (fst (step m1 inp1)) = brightness (fst (step m2 inp2)) \<and>
         snd (step m1 inp1) = snd (step m2 inp2) \<and>
         snd (step m1 inp1) = [Show (render t (replicate NUM_LEDS Black)) (frameBrightness t)]"
  using session_frame [OF assms(1,3,5,7,9,11,13)] session_frame [OF assms(2,4,6,8,10,12,13)]
  by simp

theorem frame_is_a_function_of_time_witness:
  "snd (step (fst (setup_device si0)) first_frame) =
     [Show (render (1 / 100) (replicate NUM_LEDS Black)) GLOBAL_BRIGHTNESS] \<and>
   snd (step (fst (step (fst (setup_device si0)) first_frame)) first_frame_again) =
     [Show (render (1 / 100) (replicate NUM_LEDS Black)) GLOBAL_BRIGHTNESS]"
proof -
  let ?m1 = "fst (setup_device si0)" and ?m2 = "fst (step (fst (setup_device si0)) first_frame)"
  have t: "getTimeSeconds (timerMicros first_frame) = 1 / 100"
    "getTimeSeconds (timerMicros first_frame_again) = 1 / 100"
    by (simp_all add: getTimeSeconds_def first_frame_def first_frame_again_def)
  have live: "\<not> sessionOver (1 / 100)"
    by (simp add: sessionOver_def MAX_SESSION_SECONDS_def)
  have m2: "control ?m2 = Looping" "lastFrameMs ?m2 = 510" "tStart ?m2 = 0"
    using t(1) by (simp_all add: setup_si0 step_def loop_def frame_def first_frame_def FRAME_MS_def
        MAX_SESSION_SECONDS_def Let_def)
  have h1: "?m1 = fst (run (fst (setup_device si0)) [])" by simp
  have h2: "?m2 = fst (run (fst (setup_device si0)) [first_frame])"
    by (simp only: run_Cons_fst) simp
  have h3: "\<forall>i \<in> set []. timerMicros i \<le> timerMicros first_frame" by simp
  have h4: "\<forall>i \<in> set [first_frame]. timerMicros i \<le> timerMicros first_frame_again"
    by (simp add: first_frame_def first_frame_again_def)
  have h5: "control ?m1 = Looping" by (simp add: setup_si0)
  have h7: "panicPin first_frame = HIGH" "panicPin first_frame_again = HIGH"
    by (simp_all add: first_frame_def first_frame_again_def)
  have h9: "\<not> millis first_frame - lastFrameMs ?m1 < FRAME_MS"
    by (simp add: setup_si0 first_frame_def FRAME_MS_def)
  have h10: "\<not> millis first_frame_again - lastFrameMs ?m2 < FRAME_MS"
    by (simp add: m2 first_frame_again_def FRAME_MS_def)
  have h11: "getTimeSeconds (timerMicros first_frame) - tStart ?m1 = 1 / 100"
    by (simp add: t setup_si0)
  have h12: "getTimeSeconds (timerMicros first_frame_again) - tStart ?m2 = 1 / 100"
    by (simp add: t m2)
  have fb: "frameBrightness (1 / 100) = GLOBAL_BRIGHTNESS"
    by (simp add: frameBrightness_def MAX_SESSION_SECONDS_def)
  note r = frame_is_a_function_of_time [OF h1 h2 h3 h4 h5 m2(1) h7 h9 h10 h11 h12 live,
      unfolded fb]
  from r have a: "snd (step ?m1 first_frame) =
      [Show (render (1 / 100) (replicate NUM_LEDS Black)) GLOBAL_BRIGHTNESS]" by blast
  from r have b: "snd (step ?m1 first_frame) = snd (step ?m2 first_frame_again)" by blast
  show ?thesis by (rule conjI) (rule a, rule trans [OF b [symmetric] a])
qed

section \<open>The enhanced phase\<close>




section \<open>The layout of a rendered frame\<close>

text \<open>
  C8. The claim is that the LEDs at each end of the logical order carry their own
  channel's colour scaled by the local spiral mask. The code writes the left colour to
  logical positions 0 to 2 (lines 375--385) and then overwrites all three before the frame
  is shown: positions 0 and 1 are \<^verbatim>\<open>spiralOrder[0]\<close> and \<^verbatim>\<open>spiralOrder[1]\<close>, where lines
  405--410 store the amber anchors, and the main-body loop starts at position 2. So the
  frame shown is the one rendered without the left core. In the frame the device shows
  200 s into a session, the LED at logical position 0 has red byte 108 (amber at the
  average amplitude), where the left-core colour of that position has 86.
\<close>

theorem left_core_is_overwritten:
  "snd (step (fst (setup_device si0)) frame_200) =
     [Show (render 200 (replicate NUM_LEDS Black)) GLOBAL_BRIGHTNESS] \<and>
   red (render 200 (replicate NUM_LEDS Black) ! (spiralOrder ! 0)) = 108 \<and>
   red (leftCoreColor 200 0) = 86 \<and>
   (\<forall>t. render t (replicate NUM_LEDS Black) =
          mainBody t (centerAnchors t (rightCore t (replicate NUM_LEDS Black))))"
proof -
  have t: "getTimeSeconds (timerMicros frame_200) = 200"
    by (simp add: getTimeSeconds_def frame_200_def)
  have "loop (fst (setup_device si0)) frame_200 =
      frame (fst (setup_device si0)\<lparr>lastFrameMs := millis frame_200\<rparr>) 200"
    using t by (simp add: loop_def setup_si0 frame_200_def FRAME_MS_def)
  then have s: "snd (step (fst (setup_device si0)) frame_200) =
      [Show (render 200 (replicate NUM_LEDS Black)) GLOBAL_BRIGHTNESS]"
    using frame_render [OF not_over_200]
    by (simp add: step_def setup_si0 MAX_SESSION_SECONDS_def)
  have a: "red (render 200 (replicate NUM_LEDS Black) ! (spiralOrder ! 0)) = 108"
    by (simp add: spiralOrder_nth render_anchor anchor_red_200)
  have l: "red (leftCoreColor 200 0) = 86" by (simp add: leftCoreColor_200)
  from s a l left_core_dead show ?thesis by simp
qed

section \<open>The reflection echo\<close>

text \<open>
  C9. For every main-body position (2 to \<^verbatim>\<open>NUM_LEDS - 3\<close>), every buffer and so every
  colour already stored at the echo target, each channel of the target after the pass is
  the old byte plus the decayed contribution, cut off at 255: the sum never wraps, and
  the contribution itself (the truncated \<^verbatim>\<open>r * REFLECTION_DECAY\<close>, at most 89) fits a byte.
\<close>

theorem reflection_saturates:
  assumes "length l = NUM_LEDS" and "2 \<le> pos" and "pos < NUM_LEDS - 2"
  shows "unat (red (bodyStep t l pos ! (spiralOrder ! (pos + REFLECTION_OFFSET)))) =
           min 255 (unat (red (l ! (spiralOrder ! (pos + REFLECTION_OFFSET)))) +
                    nat (float_to_int (real_of_int (fst (bodyRGB t pos)) * REFLECTION_DECAY))) \<and>
         unat (green (bodyStep t l pos ! (spiralOrder ! (pos + REFLECTION_OFFSET)))) =
           min 255 (unat (green (l ! (spiralOrder ! (pos + REFLECTION_OFFSET)))) +
                    nat (float_to_int (real_of_int (fst (snd (bodyRGB t pos))) * REFLECTION_DECAY))) \<and>
         unat (blue (bodyStep t l pos ! (spiralOrder ! (pos + REFLECTION_OFFSET)))) =
           min 255 (unat (blue (l ! (spiralOrder ! (pos + REFLECTION_OFFSET)))) +
                    nat (float_to_int (real_of_int (snd (snd (bodyRGB t pos))) * REFLECTION_DECAY)))"
proof -
  have "pos + REFLECTION_OFFSET < NUM_LEDS"
    using assms(3) by (simp add: REFLECTION_OFFSET_def NUM_LEDS_def)
  note tgt = bodyStep_echo_target [OF assms(1) this]
  show ?thesis
    unfolding tgt addEcho_channels unat_qadd8
    by (simp add: echoAmount_unat(1) bodyRGB_range)
qed

theorem reflection_saturates_witness:
  "unat (green (bodyStep 200 (replicate NUM_LEDS (CRGB 250 250 250)) 5 ! (spiralOrder ! 7))) = 255 \<and>
   unat (green (bodyStep 200 (replicate NUM_LEDS (CRGB 100 100 100)) 5 ! (spiralOrder ! 7))) = 111"
  using reflection_saturates [of "replicate NUM_LEDS (CRGB 250 250 250)" 5 200]
    reflection_saturates [of "replicate NUM_LEDS (CRGB 100 100 100)" 5 200]
  by (simp add: bodyRGB_200_5 REFLECTION_OFFSET_def REFLECTION_DECAY_def NUM_LEDS_def
      spiralOrder_nth float_to_int_def)

text \<open>
  C10. In every rendered frame the buffer handed to \<^verbatim>\<open>FastLED.show()\<close> holds, at each
  main-body position (logical 2 to \<^verbatim>\<open>NUM_LEDS - 3\<close>), exactly the primary colour line 432
  stored there: the echoes written to positions 4 to \<^verbatim>\<open>NUM_LEDS - 3\<close> have been
  overwritten. Only the last \<^verbatim>\<open>REFLECTION_OFFSET\<close> logical positions (18 and 19, of the
  right core) hold an echo: the right-core colour with the echo of the position two
  before added.
\<close>

theorem echo_kept_only_at_the_end:
  assumes "\<not> sessionOver t" and "length (leds m) = NUM_LEDS"
  shows "(\<forall>pos \<in> {2..<NUM_LEDS - 2}.
            leds (fst (frame m t)) ! (spiralOrder ! pos) = primaryColor (bodyRGB t pos)) \<and>
         (\<forall>pos \<in> {NUM_LEDS - REFLECTION_OFFSET..<NUM_LEDS}.
            leds (fst (frame m t)) ! (spiralOrder ! pos) =
              addEcho (rightCoreColor t pos) (bodyRGB t (pos - REFLECTION_OFFSET))) \<and>
         snd (frame m t) = [Show (leds (fst (frame m t))) (brightness (fst (frame m t)))]"
  unfolding body_positions tail_positions
  using frame_leds [OF assms]
  by (simp add: spiralOrder_nth render_body render_body_16 render_tail REFLECTION_OFFSET_def)

theorem echo_kept_only_at_the_end_witness:
  "leds (fst (frame (fst (setup_device si0)) 200)) ! (spiralOrder ! 5) = CRGB 40 32 26 \<and>
   leds (fst (frame (fst (setup_device si0)) 200)) ! (spiralOrder ! 18) =
     addEcho (rightCoreColor 200 18) (bodyRGB 200 16)"
proof -
  have "(5::nat) \<in> {2..<NUM_LEDS - 2}" "(18::nat) \<in> {NUM_LEDS - REFLECTION_OFFSET..<NUM_LEDS}"
    by (simp_all add: NUM_LEDS_def REFLECTION_OFFSET_def)
  then show ?thesis
    using echo_kept_only_at_the_end [OF not_over_200, of "fst (setup_device si0)"]
    by (simp add: setup_si0 bodyRGB_200_5 primaryColor_def safeClampInt_def REFLECTION_OFFSET_def)
qed

end
